theory Spec2Isabelle
  imports
    Complex_Main
    "HOL-Library.Char_ord"
    "HOL-Library.List_Lexorder"
    "HOL-Library.Product_Lexorder"
    "HOL-Library.Multiset"
begin

section \<open>Python values used by the pipeline\<close>

text \<open>
  Strings are \<open>string\<close> (lists of 8-bit characters), ordered lexicographically by
  character code as Python orders \<open>str\<close>. The model covers ASCII text: \<open>lower\<close>,
  the regular-expression classes \<open>\w\<close> and \<open>\s\<close> and \<open>strip\<close>/\<open>split\<close> are the ASCII
  ones. Python floats are modelled as exact reals.
\<close>

definition lower_char :: "char \<Rightarrow> char" where
  "lower_char c =
     (let n = (of_char c :: nat) in if 65 \<le> n \<and> n \<le> 90 then char_of (n + 32) else c)"

definition lower :: "string \<Rightarrow> string" where
  "lower s = map lower_char s"

definition is_space :: "char \<Rightarrow> bool" where
  "is_space c = (let n = (of_char c :: nat) in (9 \<le> n \<and> n \<le> 13) \<or> (28 \<le> n \<and> n \<le> 32))"

definition is_word :: "char \<Rightarrow> bool" where
  "is_word c =
     (let n = (of_char c :: nat) in
        (48 \<le> n \<and> n \<le> 57) \<or> (65 \<le> n \<and> n \<le> 90) \<or> (97 \<le> n \<and> n \<le> 122) \<or> n = 95)"

text \<open>\<open>s.strip()\<close>\<close>

definition strip :: "string \<Rightarrow> string" where
  "strip s = rev (dropWhile is_space (rev (dropWhile is_space s)))"

text \<open>\<open>s.split()\<close>: the maximal runs of non-whitespace characters; \<open>cur\<close> is the run being read.\<close>

fun split_ws_from :: "string \<Rightarrow> string \<Rightarrow> string list" where
  "split_ws_from cur [] = (if cur = [] then [] else [cur])"
| "split_ws_from cur (c # cs) =
     (if is_space c then (if cur = [] then split_ws_from [] cs else cur # split_ws_from [] cs)
      else split_ws_from (cur @ [c]) cs)"

definition split_ws :: "string \<Rightarrow> string list" where
  "split_ws s = split_ws_from [] s"

text \<open>\<open>s.split(sep)\<close> for a one-character separator: empty pieces are kept.\<close>

fun split_on :: "char \<Rightarrow> string \<Rightarrow> string list" where
  "split_on sep [] = [[]]"
| "split_on sep (c # cs) =
     (if c = sep then [] # split_on sep cs
      else (case split_on sep cs of [] \<Rightarrow> [[c]] | w # ws \<Rightarrow> (c # w) # ws))"

text \<open>\<open>sep.join(xs)\<close>\<close>

fun join :: "string \<Rightarrow> string list \<Rightarrow> string" where
  "join sep [] = []"
| "join sep [x] = x"
| "join sep (x # y # ys) = x @ sep @ join sep (y # ys)"

text \<open>\<open>sub in s\<close> on strings\<close>

primrec contains :: "string \<Rightarrow> string \<Rightarrow> bool" where
  "contains [] sub = (sub = [])"
| "contains (c # cs) sub = (take (length sub) (c # cs) = sub \<or> contains cs sub)"

text \<open>\<open>re.sub(r'[^\w\s]', ' ', s)\<close>\<close>

definition sub_punct :: "string \<Rightarrow> string" where
  "sub_punct s = map (\<lambda>c. if is_word c \<or> is_space c then c else CHR '' '') s"

text \<open>\<open>re.sub(r'\s+', ' ', s)\<close>: \<open>in_ws\<close> tells that the previous character was whitespace.\<close>

fun collapse_from :: "bool \<Rightarrow> string \<Rightarrow> string" where
  "collapse_from in_ws [] = []"
| "collapse_from in_ws (c # cs) =
     (if is_space c then (if in_ws then collapse_from True cs else CHR '' '' # collapse_from True cs)
      else c # collapse_from False cs)"

definition collapse_ws :: "string \<Rightarrow> string" where
  "collapse_ws s = collapse_from False s"

text \<open>
  \<open>round(x, 3)\<close>: the nearest multiple of 1/1000, a tie going to the even one.
\<close>

definition round_half_even :: "real \<Rightarrow> int" where
  "round_half_even x =
     (let f = \<lfloor>x\<rfloor>; d = x - of_int f in
        if d < 1 / 2 then f else if 1 / 2 < d then f + 1 else if even f then f else f + 1)"

definition round3 :: "real \<Rightarrow> real" where
  "round3 x = of_int (round_half_even (x * 1000)) / 1000"

datatype error = TypeError | IndexError

section \<open>Stories\<close>

text \<open>
  A story is a Python dict. Each key the pipeline reads or writes is a field; \<open>None\<close>
  means that the key is absent. The value under \<open>'Match Score'\<close> is a number or the
  JSON value null (\<open>PyNone\<close>), on which the arithmetic of merging and scoring raises
  \<open>TypeError\<close>.
\<close>

datatype pyscore = Num real | PyNone

record story =
  user_story_id :: "string option"
  user_story :: "string option"
  capability :: "string option"
  snippet :: "string option"
  category :: "string option"
  priority :: "string option"
  source :: "string option"
  tags :: "string list option"
  requirements :: "string list option"
  acceptance_criteria :: "string list option"
  match_score :: "pyscore option"
  content_hash :: "string option"
  clean_text :: "string option"
  clean_capability :: "string option"
  clean_snippet :: "string option"
  source_files :: "string list option"
  duplicate_count :: "nat option"
  merge_hash :: "string option"

text \<open>\<open>d.get(key, '')\<close> and \<open>d.get(key, [])\<close>\<close>

definition get_str :: "string option \<Rightarrow> string" where
  "get_str v = (case v of None \<Rightarrow> [] | Some s \<Rightarrow> s)"

definition get_list :: "string list option \<Rightarrow> string list" where
  "get_list v = (case v of None \<Rightarrow> [] | Some xs \<Rightarrow> xs)"

text \<open>The sort key \<open>x.get('User Story ID', '')\<close>\<close>

definition id_key :: "story \<Rightarrow> string" where
  "id_key s = get_str (user_story_id s)"

text \<open>The empty dict \<open>{}\<close>\<close>

definition empty_story :: story where
  "empty_story = \<lparr> user_story_id = None, user_story = None, capability = None, snippet = None,
     category = None, priority = None, source = None, tags = None, requirements = None,
     acceptance_criteria = None, match_score = None, content_hash = None, clean_text = None,
     clean_capability = None, clean_snippet = None, source_files = None,
     duplicate_count = None, merge_hash = None \<rparr>"

section \<open>DeduplicationEngine\<close>

text \<open>
  The engine holds its threshold. The library calls it makes are fields too:
  \<open>sequence_ratio a b\<close> is \<open>SequenceMatcher(None, a, b).ratio()\<close>,
  \<open>vectorizer_cosine a b\<close> is the cosine of the two rows of
  \<open>self.vectorizer.fit_transform([a, b])\<close> (\<open>None\<close> when the library raises), and
  \<open>md5_hex s\<close> is \<open>hashlib.md5(s.encode()).hexdigest()\<close>.
\<close>

record engine =
  similarity_threshold :: real
  sequence_ratio :: "string \<Rightarrow> string \<Rightarrow> real"
  vectorizer_cosine :: "string \<Rightarrow> string \<Rightarrow> real option"
  md5_hex :: "string \<Rightarrow> string"

text \<open>\<open>__init__\<close>: the threshold defaults to 0.7.\<close>

definition init_engine ::
  "real option \<Rightarrow> (string \<Rightarrow> string \<Rightarrow> real) \<Rightarrow> (string \<Rightarrow> string \<Rightarrow> real option) \<Rightarrow>
   (string \<Rightarrow> string) \<Rightarrow> engine" where
  "init_engine thr ratio cosine md5 =
     \<lparr> similarity_threshold = (case thr of None \<Rightarrow> 7 / 10 | Some t \<Rightarrow> t),
       sequence_ratio = ratio, vectorizer_cosine = cosine, md5_hex = md5 \<rparr>"

definition filler_words :: "string list" where
  "filler_words = [''the'', ''a'', ''an'', ''and'', ''or'', ''but'', ''in'', ''on'', ''at'',
     ''to'', ''for'', ''of'', ''with'', ''by'']"

definition normalize_text :: "string \<Rightarrow> string" where
  "normalize_text text =
     (if text = [] then []
      else
        let t1 = lower text;
            t2 = sub_punct t1;
            t3 = strip (collapse_ws t2);
            ws = split_ws t3;
            ws' = filter (\<lambda>w. w \<notin> set filler_words) ws
        in join '' '' ws')"

definition clean_story :: "story \<Rightarrow> story" where
  "clean_story s =
     (let s1 = (case user_story s of None \<Rightarrow> s
                | Some t \<Rightarrow> s\<lparr>clean_text := Some (normalize_text t)\<rparr>);
          s2 = (case capability s1 of None \<Rightarrow> s1
                | Some t \<Rightarrow> s1\<lparr>clean_capability := Some (normalize_text t)\<rparr>);
          s3 = (case snippet s2 of None \<Rightarrow> s2
                | Some t \<Rightarrow> s2\<lparr>clean_snippet := Some (normalize_text t)\<rparr>)
      in s3)"

definition clean_stories :: "story list \<Rightarrow> story list" where
  "clean_stories stories = map clean_story stories"

definition calculate_text_similarity :: "story \<Rightarrow> story \<Rightarrow> real" where
  "calculate_text_similarity story1 story2 =
     (let text1 = get_str (clean_text story1);
          text2 = get_str (clean_text story2)
      in if text1 = [] \<or> text2 = [] then 0
         else
           let words1 = set (split_ws text1);
               words2 = set (split_ws text2)
           in if words1 = {} \<or> words2 = {} then 0
              else
                let intersection = card (words1 \<inter> words2);
                    union = card (words1 \<union> words2)
                in if 0 < union then real intersection / real union else 0)"

definition calculate_capability_similarity :: "engine \<Rightarrow> story \<Rightarrow> story \<Rightarrow> real" where
  "calculate_capability_similarity E story1 story2 =
     (let cap1 = get_str (clean_capability story1);
          cap2 = get_str (clean_capability story2)
      in if cap1 = [] \<or> cap2 = [] then 0 else sequence_ratio E cap1 cap2)"

definition calculate_semantic_similarity :: "engine \<Rightarrow> story \<Rightarrow> story \<Rightarrow> real" where
  "calculate_semantic_similarity E story1 story2 =
     (let text1 = get_str (clean_text story1) @ '' '' @ get_str (clean_capability story1);
          text2 = get_str (clean_text story2) @ '' '' @ get_str (clean_capability story2)
      in if strip text1 = [] \<or> strip text2 = [] then 0
         else (case vectorizer_cosine E text1 text2 of None \<Rightarrow> 0 | Some v \<Rightarrow> v))"

definition weighted_similarity :: "engine \<Rightarrow> story \<Rightarrow> story \<Rightarrow> real" where
  "weighted_similarity E story1 story2 =
     calculate_text_similarity story1 story2 * (4 / 10) +
     calculate_capability_similarity E story1 story2 * (4 / 10) +
     calculate_semantic_similarity E story1 story2 * (2 / 10)"

definition are_stories_similar :: "engine \<Rightarrow> story \<Rightarrow> story \<Rightarrow> bool" where
  "are_stories_similar E story1 story2 =
     (similarity_threshold E \<le> weighted_similarity E story1 story2)"

text \<open>
  The inner loop of \<open>_find_duplicates\<close> over \<open>enumerate(stories[i+1:], i+1)\<close>: the
  group and the processed set are threaded through.
\<close>

fun scan_group ::
  "engine \<Rightarrow> story \<Rightarrow> (nat \<times> story) list \<Rightarrow> nat list \<Rightarrow> nat set \<Rightarrow> nat list \<times> nat set" where
  "scan_group E story [] current_group processed = (current_group, processed)"
| "scan_group E story ((j, other_story) # rest) current_group processed =
     (if j \<in> processed then scan_group E story rest current_group processed
      else if are_stories_similar E story other_story
        then scan_group E story rest (current_group @ [j]) (insert j processed)
        else scan_group E story rest current_group processed)"

text \<open>
  The outer loop over \<open>enumerate(stories)\<close>. At the pair \<open>(i, story)\<close> the rest of the
  enumeration is \<open>enumerate(stories[i+1:], i+1)\<close>.
\<close>

fun scan_stories ::
  "engine \<Rightarrow> (nat \<times> story) list \<Rightarrow> nat list list \<Rightarrow> nat set \<Rightarrow> nat list list" where
  "scan_stories E [] duplicate_groups processed = duplicate_groups"
| "scan_stories E ((i, story) # rest) duplicate_groups processed =
     (if i \<in> processed then scan_stories E rest duplicate_groups processed
      else
        (case scan_group E story rest [i] (insert i processed) of
           (current_group, processed') \<Rightarrow>
             if 1 < length current_group
             then scan_stories E rest (duplicate_groups @ [sort current_group]) processed'
             else scan_stories E rest duplicate_groups processed'))"

definition find_duplicates :: "engine \<Rightarrow> story list \<Rightarrow> nat list list" where
  "find_duplicates E stories = sort_key hd (scan_stories E (enumerate 0 stories) [] {})"

text \<open>The inner loop of \<open>_merge_text_fields\<close> over the sentences of one text.\<close>

fun add_sentences :: "string \<Rightarrow> string list \<Rightarrow> string" where
  "add_sentences merged_text [] = merged_text"
| "add_sentences merged_text (s # sentences) =
     (let sentence = strip s in
        if sentence \<noteq> [] \<and> \<not> contains merged_text sentence
        then add_sentences (merged_text @ ''. '' @ sentence) sentences
        else add_sentences merged_text sentences)"

text \<open>The outer loop over \<open>sorted_texts[1:]\<close>.\<close>

fun add_texts :: "string \<Rightarrow> string \<Rightarrow> string list \<Rightarrow> string" where
  "add_texts longest_text merged_text [] = merged_text"
| "add_texts longest_text merged_text (t # texts) =
     (if t \<noteq> longest_text
      then add_texts longest_text (add_sentences merged_text (split_on CHR ''.'' t)) texts
      else add_texts longest_text merged_text texts)"

definition merge_text_fields :: "string list \<Rightarrow> string" where
  "merge_text_fields texts =
     (if texts = [] then []
      else
        let texts' = filter (\<lambda>t. t \<noteq> [] \<and> strip t \<noteq> []) texts in
          if texts' = [] then []
          else if length texts' = 1 then hd texts'
          else
            let sorted_texts = sort_key (\<lambda>t. - int (length t)) texts';
                longest_text = hd sorted_texts
            in add_texts longest_text longest_text (tl sorted_texts))"

definition generate_merge_hash :: "engine \<Rightarrow> story list \<Rightarrow> string" where
  "generate_merge_hash E story_group = md5_hex E (join ''|'' (sort (map id_key story_group)))"

text \<open>\<open>sum(confidences)\<close>: \<open>None\<close> is the \<open>TypeError\<close> of adding a non-number.\<close>

fun sum_scores :: "pyscore list \<Rightarrow> real option" where
  "sum_scores [] = Some 0"
| "sum_scores (Num v # cs) = (case sum_scores cs of None \<Rightarrow> None | Some t \<Rightarrow> Some (v + t))"
| "sum_scores (PyNone # cs) = None"

text \<open>\<open>story.get('Match Score', 0.5)\<close>\<close>

definition get_score :: "story \<Rightarrow> pyscore" where
  "get_score s = (case match_score s of None \<Rightarrow> Num (1 / 2) | Some v \<Rightarrow> v)"

definition merge_story_group :: "engine \<Rightarrow> story list \<Rightarrow> error + story" where
  "merge_story_group E story_group =
     (if story_group = [] then Inr empty_story
      else
        let sorted_group = sort_key id_key story_group;
            merged = hd sorted_group;
            all_tags = concat (map (\<lambda>s. get_list (tags s)) sorted_group);
            all_requirements = concat (map (\<lambda>s. get_list (requirements s)) sorted_group);
            all_criteria = concat (map (\<lambda>s. get_list (acceptance_criteria s)) sorted_group);
            confidences = map get_score sorted_group
        in (case sum_scores confidences of
              None \<Rightarrow> Inl TypeError
            | Some score_sum \<Rightarrow>
                Inr (merged\<lparr>
                  user_story := Some (merge_text_fields (map (\<lambda>s. get_str (user_story s)) sorted_group)),
                  capability := Some (merge_text_fields (map (\<lambda>s. get_str (capability s)) sorted_group)),
                  snippet := Some (merge_text_fields (map (\<lambda>s. get_str (snippet s)) sorted_group)),
                  tags := Some (sort (remdups all_tags)),
                  requirements := Some (sort (remdups all_requirements)),
                  acceptance_criteria := Some (sort (remdups all_criteria)),
                  source_files :=
                    Some (sort (filter (\<lambda>f. f \<noteq> []) (map (\<lambda>s. get_str (source s)) sorted_group))),
                  duplicate_count := Some (length sorted_group),
                  match_score := Some (Num (round3 (score_sum / real (length confidences)))),
                  merge_hash := Some (generate_merge_hash E sorted_group)\<rparr>)))"

text \<open>\<open>[stories[i] for i in group]\<close>\<close>

fun stories_at :: "story list \<Rightarrow> nat list \<Rightarrow> error + story list" where
  "stories_at stories [] = Inr []"
| "stories_at stories (i # is) =
     (if i < length stories
      then (case stories_at stories is of Inl e \<Rightarrow> Inl e | Inr ss \<Rightarrow> Inr (stories ! i # ss))
      else Inl IndexError)"

text \<open>
  The first loop of \<open>_merge_duplicates\<close>. Nothing catches what \<open>_merge_story_group\<close>
  raises: the loop ends there with the error.
\<close>

fun merge_groups ::
  "engine \<Rightarrow> story list \<Rightarrow> nat list list \<Rightarrow> story list \<Rightarrow> nat set \<Rightarrow>
   error + (story list \<times> nat set)" where
  "merge_groups E stories [] merged_stories merged_indices = Inr (merged_stories, merged_indices)"
| "merge_groups E stories (g # groups) merged_stories merged_indices =
     (if length g = 1 then merge_groups E stories groups merged_stories merged_indices
      else
        (case stories_at stories g of
           Inl e \<Rightarrow> Inl e
         | Inr story_group \<Rightarrow>
             (case merge_story_group E story_group of
                Inl e \<Rightarrow> Inl e
              | Inr merged_story \<Rightarrow>
                  merge_groups E stories groups (merged_stories @ [merged_story])
                    (merged_indices \<union> set g))))"

text \<open>\<open>stories.index(x)\<close>, for an \<open>x\<close> that is in the list\<close>

fun index_of :: "'a list \<Rightarrow> 'a \<Rightarrow> nat" where
  "index_of [] x = 0"
| "index_of (y # ys) x = (if y = x then 0 else Suc (index_of ys x))"

definition original_index :: "story list \<Rightarrow> story \<Rightarrow> int" where
  "original_index stories x = (if x \<in> set stories then int (index_of stories x) else 999999)"

definition merge_duplicates :: "engine \<Rightarrow> story list \<Rightarrow> nat list list \<Rightarrow> error + story list" where
  "merge_duplicates E stories duplicate_groups =
     (case merge_groups E stories duplicate_groups [] {} of
        Inl e \<Rightarrow> Inl e
      | Inr (merged_stories, merged_indices) \<Rightarrow>
          Inr (sort_key (original_index stories)
                 (merged_stories @
                  map (\<lambda>i. stories ! i) (filter (\<lambda>i. i \<notin> merged_indices) [0..<length stories]))))"

text \<open>\<open>re.search(r'so that (.+)', s)\<close>: group 1 of the leftmost match, if any.\<close>

fun benefit_match :: "string \<Rightarrow> string option" where
  "benefit_match [] = None"
| "benefit_match (c # cs) =
     (let g = takeWhile (\<lambda>x. x \<noteq> CHR 0x0A) (drop 8 (c # cs)) in
        if take 8 (c # cs) = ''so that '' \<and> g \<noteq> [] then Some g else benefit_match cs)"

definition calculate_quality_score :: "story \<Rightarrow> real" where
  "calculate_quality_score s =
     (let score = 1 / 2;
          us = get_str (user_story s);
          score = (if contains (lower us) ''as a'' \<and> contains (lower us) ''i need'' \<and>
                      contains (lower us) ''so that''
                   then score + 2 / 10 else score);
          score = (if 20 < length (get_str (capability s)) then score + 1 / 10 else score);
          score = (case benefit_match (lower us) of
                     None \<Rightarrow> score
                   | Some g \<Rightarrow> if 10 < length g then score + 1 / 10 else score);
          score = (if 1 < length (get_list (tags s)) then score + 1 / 10 else score)
      in min score 1)"

definition calculate_completeness_score :: "story \<Rightarrow> real" where
  "calculate_completeness_score s =
     (let required_fields = [user_story s, capability s, category s, priority s];
          optional_fields = [get_str (snippet s) \<noteq> [], get_list (tags s) \<noteq> [],
                             get_list (requirements s) \<noteq> [], get_list (acceptance_criteria s) \<noteq> []];
          score = 1 / 2 + real (length (filter (\<lambda>f. get_str f \<noteq> []) required_fields)) * (1 / 10);
          score = score + real (length (filter (\<lambda>b. b) optional_fields)) * (5 / 100)
      in min score 1)"

definition final_score :: "real \<Rightarrow> story \<Rightarrow> real" where
  "final_score base_score s =
     base_score * (5 / 10) + calculate_quality_score s * (3 / 10) +
     calculate_completeness_score s * (2 / 10)"

fun calculate_final_scores :: "story list \<Rightarrow> error + story list" where
  "calculate_final_scores [] = Inr []"
| "calculate_final_scores (s # stories) =
     (case get_score s of
        PyNone \<Rightarrow> Inl TypeError
      | Num base_score \<Rightarrow>
          (case calculate_final_scores stories of
             Inl e \<Rightarrow> Inl e
           | Inr scored_stories \<Rightarrow>
               Inr (s\<lparr>match_score := Some (Num (round3 (final_score base_score s)))\<rparr>
                    # scored_stories)))"

text \<open>
  The final sort key \<open>(-x.get('Match Score', 0), x.get('User Story ID', ''))\<close>; every
  scored story carries a number.
\<close>

definition score_value :: "story \<Rightarrow> real" where
  "score_value s = (case match_score s of Some (Num v) \<Rightarrow> v | _ \<Rightarrow> 0)"

definition output_key :: "story \<Rightarrow> real \<times> string" where
  "output_key s = (- score_value s, id_key s)"

definition deduplicate_and_score :: "engine \<Rightarrow> story list \<Rightarrow> error + story list" where
  "deduplicate_and_score E stories =
     (if stories = [] then Inr []
      else
        let sorted_stories = sort_key id_key stories;
            cleaned_stories = clean_stories sorted_stories;
            duplicate_groups = find_duplicates E cleaned_stories
        in (case merge_duplicates E cleaned_stories duplicate_groups of
              Inl e \<Rightarrow> Inl e
            | Inr merged_stories \<Rightarrow>
                (case calculate_final_scores merged_stories of
                   Inl e \<Rightarrow> Inl e
                 | Inr scored_stories \<Rightarrow> Inr (sort_key output_key scored_stories))))"

section \<open>ConsistencyChecker\<close>

text \<open>The dict that \<open>_generate_output_hash\<close> builds for one story.\<close>

record story_data =
  data_id :: string
  data_story :: string
  data_category :: string
  data_priority :: string
  data_score :: pyscore
  data_tags :: "string list"
  data_content_hash :: string

definition story_data_of :: "story \<Rightarrow> story_data" where
  "story_data_of s =
     \<lparr> data_id = get_str (user_story_id s),
       data_story = get_str (user_story s),
       data_category = get_str (category s),
       data_priority = get_str (priority s),
       data_score = (case match_score s of None \<Rightarrow> Num 0 | Some v \<Rightarrow> v),
       data_tags = sort (get_list (tags s)),
       data_content_hash = get_str (content_hash s) \<rparr>"

text \<open>The contents of one cache file.\<close>

record 'h cache_data =
  timestamp :: string
  output_hash :: 'h
  cached_stories :: "story list"
  metadata :: "(string \<times> string) list"
  story_count :: nat

text \<open>
  The checker's cache directory is a map from input hashes to the contents of the file
  \<open>{input_hash}.json\<close>; writing a file as JSON and loading it gives the record back.
  \<open>digest d\<close> is \<open>hashlib.md5(json.dumps(d, sort_keys=True, separators=(',', ':')).encode()).hexdigest()\<close>.
\<close>

record 'h checker =
  digest :: "story_data list \<Rightarrow> 'h"
  cache :: "string \<rightharpoonup> 'h cache_data"

definition generate_output_hash :: "'h checker \<Rightarrow> story list \<Rightarrow> 'h" where
  "generate_output_hash ck output_stories =
     (let sorted_stories = sort_key id_key output_stories
      in digest ck (map story_data_of sorted_stories))"

definition text_similarity :: "string \<Rightarrow> string \<Rightarrow> real" where
  "text_similarity text1 text2 =
     (if text1 = [] \<or> text2 = [] then 0
      else
        let text1_lower = lower text1;
            text2_lower = lower text2
        in if text1_lower = text2_lower then 1
           else
             let max_len = max (length text1_lower) (length text2_lower) in
               if max_len = 0 then 1
               else
                 let matches = length (filter (\<lambda>(a, b). a = b) (zip text1_lower text2_lower))
                 in real matches / real max_len)"

text \<open>
  One round of the loop of \<open>_calculate_story_similarity\<close>, for a field that holds text
  and for \<open>'Match Score'\<close>. A missing key reads as \<open>''\<close>, which is equal to itself and
  false as a condition, as \<open>None\<close> is.
\<close>

definition text_field_similarity :: "string \<Rightarrow> string \<Rightarrow> real" where
  "text_field_similarity val1 val2 =
     (if val1 = val2 then 1
      else if val1 \<noteq> [] \<and> val2 \<noteq> [] then text_similarity val1 val2
      else 0)"

definition score_field_similarity :: "pyscore option \<Rightarrow> pyscore option \<Rightarrow> real" where
  "score_field_similarity val1 val2 =
     (if val1 = val2 then 1
      else
        (case (val1, val2) of
           (Some (Num a), Some (Num b)) \<Rightarrow>
             (if a = 0 \<and> b = 0 then 1
              else
                let max_val = max \<bar>a\<bar> \<bar>b\<bar> in
                  if max_val = 0 then 1
                  else let diff = \<bar>a - b\<bar> in max 0 (1 - diff / max_val))
         | _ \<Rightarrow> 0))"

definition calculate_story_similarity :: "story \<Rightarrow> story \<Rightarrow> real" where
  "calculate_story_similarity story1 story2 =
     (let similarities =
            [text_field_similarity (get_str (user_story story1)) (get_str (user_story story2)),
             text_field_similarity (get_str (category story1)) (get_str (category story2)),
             text_field_similarity (get_str (priority story1)) (get_str (priority story2)),
             score_field_similarity (match_score story1) (match_score story2)]
      in sum_list similarities / real (length similarities))"

text \<open>\<open>next((s for s in xs if s.get('User Story ID') == story_id), None)\<close>\<close>

definition find_story :: "story list \<Rightarrow> string \<Rightarrow> story option" where
  "find_story xs story_id = find (\<lambda>s. user_story_id s = Some story_id) xs"

text \<open>
  The similarities of the stories present in both runs. Python does not fix the order in
  which a set is visited; the model visits the identifiers in ascending order.
\<close>

definition common_similarities :: "story list \<Rightarrow> story list \<Rightarrow> (string \<times> real) list" where
  "common_similarities cached current =
     (let cached_ids = set (map id_key cached);
          current_ids = set (map id_key current);
          common_ids = cached_ids \<inter> current_ids
      in List.map_filter
           (\<lambda>story_id.
              case (find_story cached story_id, find_story current story_id) of
                (Some cached_story, Some current_story) \<Rightarrow>
                  Some (story_id, calculate_story_similarity cached_story current_story)
              | _ \<Rightarrow> None)
           (sorted_list_of_set common_ids))"

definition calculate_consistency_score :: "story list \<Rightarrow> story list \<Rightarrow> real" where
  "calculate_consistency_score cached current =
     (if cached = [] \<or> current = [] then 0
      else
        let cached_ids = set (map id_key cached);
            current_ids = set (map id_key current);
            common_ids = cached_ids \<inter> current_ids;
            total_ids = cached_ids \<union> current_ids
        in if total_ids = {} then 0
           else
             let id_score = real (card common_ids) / real (card total_ids);
                 similarities = map snd (common_similarities cached current);
                 content_similarity =
                   (if similarities \<noteq> [] then sum_list similarities / real (length similarities)
                    else 0)
             in round3 (id_score * (6 / 10) + content_similarity * (4 / 10)))"

text \<open>
  The result of \<open>_identify_differences\<close>: the counts, the identifiers added and removed,
  and for each story changed below the significance threshold its identifier and
  similarity (the two versions of the story are left out).
\<close>

record differences =
  added_stories :: nat
  removed_stories :: nat
  common_stories :: nat
  total_changes :: nat
  changed_stories :: "(string \<times> real) list"
  added :: "string set"
  removed :: "string set"
  significantly_changed :: nat

definition identify_differences :: "story list \<Rightarrow> story list \<Rightarrow> differences" where
  "identify_differences cached current =
     (let cached_ids = set (map id_key cached);
          current_ids = set (map id_key current);
          added_ids = current_ids - cached_ids;
          removed_ids = cached_ids - current_ids;
          common_ids = cached_ids \<inter> current_ids;
          changed = filter (\<lambda>(story_id, similarity). similarity < 9 / 10)
                      (common_similarities cached current)
      in \<lparr> added_stories = card added_ids,
           removed_stories = card removed_ids,
           common_stories = card common_ids,
           total_changes = card added_ids + card removed_ids,
           changed_stories = changed,
           added = added_ids,
           removed = removed_ids,
           significantly_changed = length changed \<rparr>)"

record 'h consistency_result =
  is_consistent :: bool
  message :: string
  previous_run :: "string option"
  consistency_score :: real
  cached_hash :: "'h option"
  current_hash :: 'h
  found_differences :: "differences option"

definition check_consistency :: "'h checker \<Rightarrow> string \<Rightarrow> story list \<Rightarrow> 'h consistency_result" where
  "check_consistency ck input_hash output_stories =
     (case cache ck input_hash of
        Some cached_data \<Rightarrow>
          (let current_output_hash = generate_output_hash ck output_stories in
             if output_hash cached_data = current_output_hash
             then \<lparr> is_consistent = True,
                    message = ''Output matches previous run exactly'',
                    previous_run = Some (timestamp cached_data),
                    consistency_score = 1,
                    cached_hash = Some (output_hash cached_data),
                    current_hash = current_output_hash,
                    found_differences = None \<rparr>
             else \<lparr> is_consistent = False,
                    message = ''Output differs from previous run'',
                    previous_run = Some (timestamp cached_data),
                    consistency_score =
                      calculate_consistency_score (cached_stories cached_data) output_stories,
                    cached_hash = Some (output_hash cached_data),
                    current_hash = current_output_hash,
                    found_differences =
                      Some (identify_differences (cached_stories cached_data) output_stories) \<rparr>)
      | None \<Rightarrow>
          \<lparr> is_consistent = True,
            message = ''First run with this input - no previous data to compare'',
            previous_run = None,
            consistency_score = 1,
            cached_hash = None,
            current_hash = generate_output_hash ck output_stories,
            found_differences = None \<rparr>)"

text \<open>
  \<open>cache_output\<close> writes the file of \<open>input_hash\<close>; \<open>now\<close> is
  \<open>datetime.now().isoformat()\<close> and \<open>None\<close> for the metadata reads as \<open>{}\<close>.
\<close>

definition cache_output ::
  "'h checker \<Rightarrow> string \<Rightarrow> story list \<Rightarrow> (string \<times> string) list option \<Rightarrow> string \<Rightarrow> 'h checker" where
  "cache_output ck input_hash output_stories meta now =
     ck\<lparr>cache := (cache ck)(input_hash \<mapsto>
        \<lparr> timestamp = now,
          output_hash = generate_output_hash ck output_stories,
          cached_stories = output_stories,
          metadata = (case meta of None \<Rightarrow> [] | Some m \<Rightarrow> m),
          story_count = length output_stories \<rparr>)\<rparr>"

section \<open>VectorProcessor\<close>

text \<open>
  A chunk: \<open>embedding\<close> is \<open>None\<close> when the key is absent or holds \<open>None\<close>;
  \<open>chunk_filename\<close> and \<open>chunk_index\<close> are the entries of its metadata.
\<close>

record chunk =
  chunk_id :: string
  chunk_text :: string
  embedding :: "real list option"
  chunk_filename :: "string option"
  chunk_index :: "int option"

text \<open>
  The processor: \<open>embedding_model\<close> is \<open>None\<close> when Vertex AI could not be initialised,
  else the function from a text to its embedding (\<open>None\<close> when the call raises).
  \<open>in_event_loop\<close> tells that the caller runs inside an event loop, where
  \<open>asyncio.run\<close> raises \<open>RuntimeError\<close>.
\<close>

record processor =
  embedding_model :: "(string \<Rightarrow> real list option) option"
  in_event_loop :: bool

definition generate_embedding :: "(string \<Rightarrow> real list option) \<Rightarrow> string \<Rightarrow> real list" where
  "generate_embedding model text =
     (case model text of Some values \<Rightarrow> values | None \<Rightarrow> replicate 768 0)"

text \<open>\<open>np.dot\<close> raises on vectors of different lengths; the handler returns 0.\<close>

definition cosine_similarity :: "real list \<Rightarrow> real list \<Rightarrow> real" where
  "cosine_similarity vec1 vec2 =
     (if length vec1 \<noteq> length vec2 then 0
      else
        let dot_product = sum_list (map (\<lambda>(x, y). x * y) (zip vec1 vec2));
            norm1 = sqrt (sum_list (map (\<lambda>x. x * x) vec1));
            norm2 = sqrt (sum_list (map (\<lambda>x. x * x) vec2))
        in if norm1 = 0 \<or> norm2 = 0 then 0 else dot_product / (norm1 * norm2))"

text \<open>\<open>'embedding' in chunk and chunk['embedding']\<close>\<close>

definition has_embedding :: "chunk \<Rightarrow> bool" where
  "has_embedding c = (case embedding c of None \<Rightarrow> False | Some e \<Rightarrow> e \<noteq> [])"

definition find_similar_chunks :: "processor \<Rightarrow> string \<Rightarrow> chunk list \<Rightarrow> nat \<Rightarrow> chunk list" where
  "find_similar_chunks vp query chunks top_k =
     (case embedding_model vp of
        None \<Rightarrow> take top_k chunks
      | Some model \<Rightarrow>
          if chunks = [] then take top_k chunks
          else if in_event_loop vp then take top_k chunks
          else
            let query_embedding = generate_embedding model query;
                similarities =
                  List.map_filter
                    (\<lambda>c. case embedding c of
                           None \<Rightarrow> None
                         | Some e \<Rightarrow>
                             if e \<noteq> [] then Some (cosine_similarity query_embedding e, c)
                             else None)
                    chunks;
                ranked = sort_key (\<lambda>(similarity, c). - similarity) similarities
            in map snd (take top_k ranked))"

text \<open>
  The inner loop of \<open>get_context_for_extraction\<close> over
  \<open>range(max(0, chunk_index - 1), min(len(same_transcript_chunks), chunk_index + 2))\<close>.
\<close>

fun add_surrounding :: "chunk list \<Rightarrow> int \<Rightarrow> int list \<Rightarrow> chunk list \<Rightarrow> chunk list" where
  "add_surrounding same_transcript_chunks idx [] context_chunks = context_chunks"
| "add_surrounding same_transcript_chunks idx (i # is) context_chunks =
     (if i \<noteq> idx \<and> same_transcript_chunks ! nat i \<notin> set context_chunks
      then add_surrounding same_transcript_chunks idx is
             (context_chunks @ [same_transcript_chunks ! nat i])
      else add_surrounding same_transcript_chunks idx is context_chunks)"

fun add_context :: "chunk list \<Rightarrow> chunk list \<Rightarrow> chunk list \<Rightarrow> chunk list" where
  "add_context chunks [] context_chunks = context_chunks"
| "add_context chunks (c # similar_chunks) context_chunks =
     (let filename = get_str (chunk_filename c);
          idx = (case chunk_index c of None \<Rightarrow> 0 | Some i \<Rightarrow> i);
          same_transcript_chunks = filter (\<lambda>d. chunk_filename d = Some filename) chunks
      in add_context chunks similar_chunks
           (add_surrounding same_transcript_chunks idx
              [max 0 (idx - 1) .. min (int (length same_transcript_chunks)) (idx + 2) - 1]
              (context_chunks @ [c])))"

definition get_context_for_extraction ::
  "processor \<Rightarrow> string \<Rightarrow> chunk list \<Rightarrow> nat \<Rightarrow> chunk list" where
  "get_context_for_extraction vp story_text chunks context_window =
     (if chunks = [] then []
      else
        let similar_chunks = find_similar_chunks vp story_text chunks context_window
        in take (context_window * 2) (add_context chunks similar_chunks []))"

section \<open>Notions used to state the properties\<close>







text \<open>\<open>duplicate_count\<close>, counting 1 for a story without that field.\<close>

definition dup_count :: "story \<Rightarrow> nat" where
  "dup_count s = (case duplicate_count s of None \<Rightarrow> 1 | Some n \<Rightarrow> n)"

text \<open>
  The invariant of the grouping scan: the groups found so far are pairwise disjoint, lie
  within the processed indices and have at least two members each.
\<close>

definition groups_ok :: "nat list list \<Rightarrow> nat set \<Rightarrow> bool" where
  "groups_ok groups proc \<longleftrightarrow>
     distinct (concat groups) \<and> set (concat groups) \<subseteq> proc \<and> (\<forall>g\<in>set groups. 1 < length g)"

text \<open>
  The ranking that the specification describes for chunks without embeddings: by the
  number of query words present in the chunk text, descending, ties by position ascending.
\<close>

definition overlap_count :: "string \<Rightarrow> chunk \<Rightarrow> nat" where
  "overlap_count query c = length (filter (\<lambda>w. contains (chunk_text c) w) (split_ws query))"

definition spec_overlap_top_k :: "string \<Rightarrow> chunk list \<Rightarrow> nat \<Rightarrow> chunk list" where
  "spec_overlap_top_k query chunks top_k =
     map snd (take top_k
       (sort_key (\<lambda>(i, c). (- int (overlap_count query c), i)) (enumerate 0 chunks)))"

section \<open>Concrete inputs\<close>

text \<open>
  An engine with threshold 0.4. Its library functions give 1 on equal strings and 0
  otherwise, as \<open>difflib\<close> and the vectorizer do on equal strings and on strings with no
  character, respectively no token, in common; the digest is left symbolic.
\<close>

definition scan_engine :: engine where
  "scan_engine =
     init_engine (Some (4 / 10)) (\<lambda>a b. if a = b then 1 else 0)
       (\<lambda>a b. if a = b then Some 1 else Some 0) (\<lambda>s. s)"

definition candidate :: "string \<Rightarrow> string \<Rightarrow> string \<Rightarrow> pyscore \<Rightarrow> story" where
  "candidate i t c v =
     empty_story\<lparr>user_story_id := Some i, user_story := Some t, capability := Some c,
       match_score := Some v\<rparr>"

definition story_A :: story where
  "story_A = candidate ''US-1'' ''alpha'' [] (Num (8 / 10))"

definition story_B :: story where
  "story_B = candidate ''US-2'' ''alpha'' ''zz'' (Num (8 / 10))"

definition story_C :: story where
  "story_C = candidate ''US-3'' ''beta'' ''zz'' (Num (1 / 2))"

text \<open>\<open>story_B\<close> with \<open>'Match Score': None\<close>\<close>

definition story_B_null :: story where
  "story_B_null = candidate ''US-2'' ''alpha'' ''zz'' PyNone"

text \<open>Two stories with one identifier and different texts.\<close>

definition story_D1 :: story where
  "story_D1 = candidate ''US-1'' ''first text'' [] (Num (1 / 2))"

definition story_D2 :: story where
  "story_D2 = candidate ''US-1'' ''second text'' [] (Num (1 / 2))"

text \<open>A checker with an empty cache whose digest is the hashed data itself.\<close>

definition fresh_checker :: "(story_data list) checker" where
  "fresh_checker = \<lparr> digest = (\<lambda>d. d), cache = Map.empty \<rparr>"

text \<open>Two chunks without embeddings, a processor without a model and one with a model.\<close>

definition chunk_0 :: chunk where
  "chunk_0 = \<lparr> chunk_id = ''a.txt_p_0'', chunk_text = ''weather report'', embedding = None,
     chunk_filename = Some ''a.txt'', chunk_index = Some 0 \<rparr>"

definition chunk_1 :: chunk where
  "chunk_1 = \<lparr> chunk_id = ''a.txt_p_1'', chunk_text = ''approve documents'', embedding = None,
     chunk_filename = Some ''a.txt'', chunk_index = Some 1 \<rparr>"

definition offline_processor :: processor where
  "offline_processor = \<lparr> embedding_model = None, in_event_loop = False \<rparr>"

definition online_processor :: processor where
  "online_processor = \<lparr> embedding_model = Some (\<lambda>t. None), in_event_loop = False \<rparr>"

section \<open>Properties of the deduplication engine\<close>





lemma sort_key_permutation:
  assumes "mset P = mset S" and "distinct (map f S)"
  shows "sort_key f P = sort_key f S"
proof (rule sort_key_inj_key_eq)
  show "mset P = mset (sort_key f S)" using assms(1) by simp
  have "set P = set S" using assms(1) by (metis set_mset_mset)
  moreover have "inj_on f (set S)" using assms(2) by (simp add: distinct_map)
  ultimately show "inj_on f (set P)" by simp
  show "sorted (map f (sort_key f S))" by simp
qed

text \<open>
  C1. When the stories of a list carry pairwise distinct identifiers, every permutation
  of the list gives the same result: the same stories with the same fields in the same
  order, or the same error.
\<close>

theorem deduplicate_permutation_invariant:
  assumes "mset P = mset S" and "distinct (map id_key S)"
  shows "deduplicate_and_score E P = deduplicate_and_score E S"
proof -
  have "sort_key id_key P = sort_key id_key S"
    using assms by (rule sort_key_permutation)
  moreover have "P = [] \<longleftrightarrow> S = []"
    using assms(1) by (metis mset_zero_iff)
  ultimately show ?thesis
    by (simp add: deduplicate_and_score_def)
qed

theorem deduplicate_permutation_invariant_witness:
  "mset (rev [story_A, story_B, story_C]) = mset [story_A, story_B, story_C] \<and>
   distinct (map id_key [story_A, story_B, story_C]) \<and>
   deduplicate_and_score scan_engine (rev [story_A, story_B, story_C]) =
   deduplicate_and_score scan_engine [story_A, story_B, story_C]"
proof -
  have p: "mset (rev [story_A, story_B, story_C]) = mset [story_A, story_B, story_C]"
    by simp
  have d: "distinct (map id_key [story_A, story_B, story_C])"
    by (simp add: id_key_def get_str_def story_A_def story_B_def story_C_def candidate_def)
  show ?thesis
    using p d deduplicate_permutation_invariant [OF p d, of scan_engine] by simp
qed

lemma head_only_scan:
  assumes "are_stories_similar E a b" and "\<not> are_stories_similar E a c"
  shows "find_duplicates E [a, b, c] = [[0, 1]]"
proof -
  have scan: "scan_stories E (enumerate 0 [a, b, c]) [] {} = [[0, 1]]"
    using assms by simp
  have sorted_groups: "sort_key hd [[0, 1 :: nat]] = [[0, 1]]"
    by simp
  show ?thesis
    unfolding find_duplicates_def scan by (rule sorted_groups)
qed

text \<open>
  C2 (amended). Each later candidate is compared with the first member of the group only.
  For three candidates in identifier order where the first and second are duplicates, the
  second and third are duplicates, and the first and third are not, the scan yields the
  single group of the first two; the third candidate joins no group.
\<close>

theorem group_members_match_head_only:
  assumes "are_stories_similar E a b" and "are_stories_similar E b c"
    and "\<not> are_stories_similar E a c"
  shows "find_duplicates E [a, b, c] = [[0, 1]]"
  using assms(1) assms(3) by (rule head_only_scan)

theorem group_members_match_head_only_witness:
  "are_stories_similar scan_engine (clean_story story_A) (clean_story story_B) \<and>
   are_stories_similar scan_engine (clean_story story_B) (clean_story story_C) \<and>
   \<not> are_stories_similar scan_engine (clean_story story_A) (clean_story story_C) \<and>
   find_duplicates scan_engine [clean_story story_A, clean_story story_B, clean_story story_C] =
     [[0, 1]]"
proof -
  have ab: "are_stories_similar scan_engine (clean_story story_A) (clean_story story_B)"
    by code_simp
  have bc: "are_stories_similar scan_engine (clean_story story_B) (clean_story story_C)"
    by code_simp
  have ac: "\<not> are_stories_similar scan_engine (clean_story story_A) (clean_story story_C)"
    by code_simp
  show ?thesis
    using ab bc ac group_members_match_head_only [OF ab bc ac] by simp
qed

text \<open>
  C2 as stated fails: \<open>story_A\<close> and \<open>story_B\<close> are duplicates, \<open>story_B\<close> and
  \<open>story_C\<close> are duplicates, \<open>story_A\<close> and \<open>story_C\<close> are not, and the scan returns the
  group of indices 0 and 1 only, not one group of size 3.
\<close>

theorem chain_not_grouped_counterexample:
  "are_stories_similar scan_engine (clean_story story_A) (clean_story story_B) \<and>
   are_stories_similar scan_engine (clean_story story_B) (clean_story story_C) \<and>
   \<not> are_stories_similar scan_engine (clean_story story_A) (clean_story story_C) \<and>
   find_duplicates scan_engine (clean_stories [story_A, story_B, story_C]) = [[0, 1]] \<and>
   map id_key (projr (deduplicate_and_score scan_engine [story_A, story_B, story_C])) =
     [''US-1'', ''US-3''] \<and>
   map dup_count (projr (deduplicate_and_score scan_engine [story_A, story_B, story_C])) = [2, 1]"
  by code_simp

text \<open>
  The three decisions of this instance do not depend on the values the libraries take:
  they hold for every engine with threshold 0.4 whose ratio is 1 on equal strings and
  whose cosine is never negative and is 0, or fails, on texts without a common token.
\<close>

lemma example_cleaned:
  "get_str (clean_capability (clean_story story_A)) = []"
  "get_str (clean_capability (clean_story story_B)) = ''zz''"
  "get_str (clean_capability (clean_story story_C)) = ''zz''"
  "get_str (clean_text (clean_story story_A)) = ''alpha''"
  "get_str (clean_text (clean_story story_B)) = ''alpha''"
  "get_str (clean_text (clean_story story_C)) = ''beta''"
  by code_simp+

lemma example_overlap:
  "calculate_text_similarity (clean_story story_A) (clean_story story_B) = 1"
  "calculate_text_similarity (clean_story story_B) (clean_story story_C) = 0"
  "calculate_text_similarity (clean_story story_A) (clean_story story_C) = 0"
  by code_simp+

lemma semantic_nonneg:
  assumes "\<forall>x y v. vectorizer_cosine E x y = Some v \<longrightarrow> 0 \<le> v"
  shows "0 \<le> calculate_semantic_similarity E a b"
  using assms by (auto simp: calculate_semantic_similarity_def Let_def split: option.splits)

lemma chain_not_grouped_any_library:
  assumes thr: "similarity_threshold E = 4 / 10"
    and ratio: "sequence_ratio E ''zz'' ''zz'' = 1"
    and cos: "\<forall>x y v. vectorizer_cosine E x y = Some v \<longrightarrow> 0 \<le> v"
    and disjoint: "vectorizer_cosine E ''alpha '' ''beta zz'' = None \<or>
                   vectorizer_cosine E ''alpha '' ''beta zz'' = Some 0"
  shows "are_stories_similar E (clean_story story_A) (clean_story story_B) \<and>
         are_stories_similar E (clean_story story_B) (clean_story story_C) \<and>
         \<not> are_stories_similar E (clean_story story_A) (clean_story story_C) \<and>
         find_duplicates E (clean_stories [story_A, story_B, story_C]) = [[0, 1]]"
proof -
  let ?A = "clean_story story_A" and ?B = "clean_story story_B" and ?C = "clean_story story_C"
  have cap_ab: "calculate_capability_similarity E ?A ?B = 0"
    by (simp add: calculate_capability_similarity_def example_cleaned)
  have cap_bc: "calculate_capability_similarity E ?B ?C = 1"
    using ratio by (simp add: calculate_capability_similarity_def example_cleaned)
  have cap_ac: "calculate_capability_similarity E ?A ?C = 0"
    by (simp add: calculate_capability_similarity_def example_cleaned)
  have sem_ac: "calculate_semantic_similarity E ?A ?C = 0"
    using disjoint
    by (auto simp: calculate_semantic_similarity_def example_cleaned Let_def)
  note sem = semantic_nonneg [OF cos]
  have ab: "are_stories_similar E ?A ?B"
    using sem [of ?A ?B]
    by (simp add: are_stories_similar_def weighted_similarity_def thr cap_ab example_overlap)
  have bc: "are_stories_similar E ?B ?C"
    using sem [of ?B ?C]
    by (simp add: are_stories_similar_def weighted_similarity_def thr cap_bc example_overlap)
  have ac: "\<not> are_stories_similar E ?A ?C"
    by (simp add: are_stories_similar_def weighted_similarity_def thr cap_ac sem_ac example_overlap)
  have "find_duplicates E [?A, ?B, ?C] = [[0, 1]]"
    using ab ac by (rule head_only_scan)
  with ab bc ac show ?thesis by (simp add: clean_stories_def)
qed

lemma scan_group_props:
  "scan_group E s rest grp proc = (grp', proc') \<Longrightarrow>
     \<exists>new. grp' = grp @ new \<and> distinct new \<and> set new \<inter> proc = {} \<and>
           set new \<subseteq> fst ` set rest \<and> proc' = proc \<union> set new"
proof (induction rest arbitrary: grp proc)
  case Nil
  then show ?case by simp
next
  case (Cons p rest)
  obtain j other where p: "p = (j, other)" by (cases p)
  show ?case
  proof (cases "j \<notin> proc \<and> are_stories_similar E s other")
    case True
    with Cons.prems p have "scan_group E s rest (grp @ [j]) (insert j proc) = (grp', proc')"
      by simp
    from Cons.IH [OF this] obtain new where
      n: "grp' = (grp @ [j]) @ new" "distinct new" "set new \<inter> insert j proc = {}"
         "set new \<subseteq> fst ` set rest" "proc' = insert j proc \<union> set new"
      by blast
    show ?thesis
    proof (intro exI conjI)
      show "grp' = grp @ (j # new)" using n(1) by simp
      show "distinct (j # new)" using n(2,3) by auto
      show "set (j # new) \<inter> proc = {}" using n(3) True by auto
      show "set (j # new) \<subseteq> fst ` set (p # rest)" using n(4) p by auto
      show "proc' = proc \<union> set (j # new)" using n(5) by auto
    qed
  next
    case False
    with Cons.prems p have "scan_group E s rest grp proc = (grp', proc')"
      by (auto split: if_splits)
    from Cons.IH [OF this] obtain new where
      n: "grp' = grp @ new" "distinct new" "set new \<inter> proc = {}"
         "set new \<subseteq> fst ` set rest" "proc' = proc \<union> set new"
      by blast
    then show ?thesis by (intro exI [of _ new]) auto
  qed
qed

lemma scan_stories_props:
  "groups_ok groups proc \<Longrightarrow>
     groups_ok (scan_stories E ps groups proc) (proc \<union> fst ` set ps)"
proof (induction ps arbitrary: groups proc)
  case Nil
  then show ?case by simp
next
  case (Cons p ps)
  obtain i s where p: "p = (i, s)" by (cases p)
  show ?case
  proof (cases "i \<in> proc")
    case True
    then have "proc \<union> fst ` set (p # ps) = proc \<union> fst ` set ps" using p by auto
    with Cons.IH [OF Cons.prems] True p show ?thesis by simp
  next
    case False
    obtain grp' proc' where sg: "scan_group E s ps [i] (insert i proc) = (grp', proc')"
      by (cases "scan_group E s ps [i] (insert i proc)")
    from scan_group_props [OF sg] obtain new where
      n: "grp' = [i] @ new" "distinct new" "set new \<inter> insert i proc = {}"
         "set new \<subseteq> fst ` set ps" "proc' = insert i proc \<union> set new"
      by blast
    have sub: "proc' \<union> fst ` set ps = proc \<union> fst ` set (p # ps)"
      using n(4,5) p by auto
    have ok1: "groups_ok groups proc'"
      using Cons.prems n(5) by (auto simp: groups_ok_def)
    have g: "distinct grp'" "set grp' \<inter> proc = {}" "set grp' \<subseteq> proc'"
      using n False by auto
    have ok2: "groups_ok (groups @ [sort grp']) proc'" if "1 < length grp'"
      using Cons.prems g ok1 that unfolding groups_ok_def by auto
    show ?thesis
    proof (cases "1 < length grp'")
      case True
      with False p sg have "scan_stories E (p # ps) groups proc =
          scan_stories E ps (groups @ [sort grp']) proc'" by simp
      with Cons.IH [OF ok2 [OF True]] sub show ?thesis by simp
    next
      case F: False
      with False p sg have "scan_stories E (p # ps) groups proc =
          scan_stories E ps groups proc'" by simp
      with Cons.IH [OF ok1] sub show ?thesis by simp
    qed
  qed
qed

lemma mset_concat_cong:
  assumes "mset xss = mset yss"
  shows "mset (concat xss) = mset (concat yss)"
proof -
  have "mset (concat xss) = sum_mset (mset (map mset xss))"
    by (simp only: mset_concat sum_mset_sum_list)
  also have "\<dots> = sum_mset (mset (map mset yss))"
    using assms by simp
  also have "\<dots> = mset (concat yss)"
    by (simp only: mset_concat sum_mset_sum_list)
  finally show ?thesis .
qed

lemma mset_concat_sort_key: "mset (concat (sort_key f xss)) = mset (concat xss)"
  by (rule mset_concat_cong) simp

lemma find_duplicates_props:
  "distinct (concat (find_duplicates E stories)) \<and>
   set (concat (find_duplicates E stories)) \<subseteq> {..<length stories} \<and>
   (\<forall>g\<in>set (find_duplicates E stories). 1 < length g)"
proof -
  let ?gs = "scan_stories E (enumerate 0 stories) [] {}"
  have "groups_ok [] {}" by (simp add: groups_ok_def)
  from scan_stories_props [OF this, of E "enumerate 0 stories"]
  have ok: "groups_ok ?gs (fst ` set (enumerate 0 stories))" by simp
  have m: "mset (concat (find_duplicates E stories)) = mset (concat ?gs)"
    by (simp add: find_duplicates_def mset_concat_sort_key)
  have "distinct (concat (find_duplicates E stories))"
    using ok m by (metis groups_ok_def mset_eq_imp_distinct_iff)
  moreover have "set (concat (find_duplicates E stories)) = set (concat ?gs)"
    using m by (metis set_mset_mset)
  moreover have "fst ` set (enumerate 0 stories) = {..<length stories}"
    by (auto simp: in_set_enumerate_eq image_iff Bex_def)
  moreover have "set (find_duplicates E stories) = set ?gs"
    by (simp add: find_duplicates_def)
  ultimately show ?thesis using ok by (simp add: groups_ok_def)
qed


lemma clean_story_fields:
  "match_score (clean_story s) = match_score s"
  "duplicate_count (clean_story s) = duplicate_count s"
  "user_story_id (clean_story s) = user_story_id s"
  by (simp_all add: clean_story_def Let_def split: option.splits)








lemma sum_scores_none: "PyNone \<in> set cs \<Longrightarrow> sum_scores cs = None"
proof (induction cs)
  case Nil
  then show ?case by simp
next
  case (Cons c cs)
  then show ?case by (cases c) (auto split: option.splits)
qed

lemma merge_story_group_count:
  assumes "merge_story_group E grp = Inr m" and "grp \<noteq> []"
  shows "duplicate_count m = Some (length grp)"
  using assms by (auto simp: merge_story_group_def Let_def split: option.splits)


lemma merge_story_group_raises:
  assumes "s \<in> set grp" and "match_score s = Some PyNone"
  shows "merge_story_group E grp = Inl TypeError"
proof -
  have "PyNone \<in> set (map get_score (sort_key id_key grp))"
    using assms by (force simp: get_score_def)
  then have "sum_scores (map get_score (sort_key id_key grp)) = None"
    by (rule sum_scores_none)
  moreover have "grp \<noteq> []" using assms(1) by auto
  ultimately show ?thesis by (simp add: merge_story_group_def Let_def)
qed

lemma stories_at_ok:
  "\<forall>i\<in>set g. i < length stories \<Longrightarrow> stories_at stories g = Inr (map ((!) stories) g)"
  by (induction g) auto


lemma stories_at_length: "stories_at stories g = Inr grp \<Longrightarrow> length grp = length g"
  by (induction g arbitrary: grp) (auto split: if_splits sum.splits)

lemma stories_at_set: "stories_at stories g = Inr grp \<Longrightarrow> set grp \<subseteq> set stories"
  by (induction g arbitrary: grp) (auto split: if_splits sum.splits)

lemma merge_groups_counts:
  assumes "merge_groups E stories groups acc idx = Inr (ms', idx')"
    and "\<forall>g\<in>set groups. 1 < length g"
  shows "\<exists>ms. ms' = acc @ ms \<and> map dup_count ms = map length groups \<and>
           idx' = idx \<union> set (concat groups)"
  using assms
proof (induction groups arbitrary: acc idx)
  case Nil
  then show ?case by simp
next
  case (Cons g groups)
  from Cons.prems(2) have g: "length g \<noteq> 1" "g \<noteq> []" by auto
  from Cons.prems(1) g obtain grp m where
    grp: "stories_at stories g = Inr grp" and
    m: "merge_story_group E grp = Inr m" and
    rest: "merge_groups E stories groups (acc @ [m]) (idx \<union> set g) = Inr (ms', idx')"
    by (auto split: sum.splits)
  have "grp \<noteq> []" using stories_at_length [OF grp] g(2) by auto
  with m have dc: "dup_count m = length g"
    using merge_story_group_count [of E grp m] stories_at_length [OF grp]
    by (simp add: dup_count_def)
  from Cons.IH [OF rest] Cons.prems(2) obtain ms where
    ms: "ms' = (acc @ [m]) @ ms" "map dup_count ms = map length groups"
        "idx' = (idx \<union> set g) \<union> set (concat groups)" by auto
  show ?case
    by (rule exI [of _ "m # ms"]) (use ms dc in auto)
qed




















lemma merge_story_group_error: "merge_story_group E grp = Inl e \<Longrightarrow> e = TypeError"
  by (auto simp: merge_story_group_def Let_def split: if_splits option.splits)

lemma merge_groups_error:
  assumes "merge_groups E stories groups acc idx = Inl e"
    and "\<forall>g\<in>set groups. \<forall>i\<in>set g. i < length stories"
  shows "e = TypeError"
  using assms
proof (induction groups arbitrary: acc idx)
  case Nil
  then show ?case by simp
next
  case (Cons g groups)
  have at: "stories_at stories g = Inr (map ((!) stories) g)"
    using Cons.prems(2) by (intro stories_at_ok) simp
  show ?case
  proof (cases "length g = 1")
    case True
    with Cons show ?thesis by simp
  next
    case False
    show ?thesis
    proof (cases "merge_story_group E (map ((!) stories) g)")
      case (Inl e')
      with Cons.prems(1) False at have "e = e'" by simp
      with Inl show ?thesis using merge_story_group_error by blast
    next
      case (Inr m)
      with Cons.prems(1) False at
      have "merge_groups E stories groups (acc @ [m]) (idx \<union> set g) = Inl e" by simp
      with Cons.IH Cons.prems(2) show ?thesis by simp
    qed
  qed
qed

lemma merge_groups_each_merged:
  assumes "merge_groups E stories groups acc idx = Inr r"
    and "\<forall>g\<in>set groups. 1 < length g \<and> (\<forall>i\<in>set g. i < length stories)"
    and "g \<in> set groups"
  shows "\<exists>m. merge_story_group E (map ((!) stories) g) = Inr m"
  using assms
proof (induction groups arbitrary: acc idx)
  case Nil
  then show ?case by simp
next
  case (Cons h groups)
  have at: "stories_at stories h = Inr (map ((!) stories) h)"
    using Cons.prems(2) by (intro stories_at_ok) simp
  have h1: "length h \<noteq> 1" using Cons.prems(2) by auto
  from Cons.prems(1) h1 at obtain m where
    m: "merge_story_group E (map ((!) stories) h) = Inr m" and
    rest: "merge_groups E stories groups (acc @ [m]) (idx \<union> set h) = Inr r"
    by (auto split: sum.splits)
  show ?case
  proof (cases "g = h")
    case True
    with m show ?thesis by blast
  next
    case False
    with Cons.prems(3) have "g \<in> set groups" by simp
    with Cons.IH [OF rest] Cons.prems(2) show ?thesis by simp
  qed
qed

lemma final_scores_error: "calculate_final_scores ms = Inl e \<Longrightarrow> e = TypeError"
  by (induction ms) (auto split: pyscore.splits sum.splits)

lemma final_scores_raises:
  "m \<in> set ms \<Longrightarrow> get_score m = PyNone \<Longrightarrow> calculate_final_scores ms = Inl TypeError"
proof (induction ms)
  case Nil
  then show ?case by simp
next
  case (Cons x ms)
  show ?case
  proof (cases "get_score x")
    case PyNone
    then show ?thesis by simp
  next
    case (Num v)
    with Cons have "calculate_final_scores ms = Inl TypeError" by auto
    with Num show ?thesis by simp
  qed
qed

text \<open>
  C8 (amended). Nothing contains a failure of one group. When a candidate carries a
  \<open>'Match Score'\<close> that is not a number, merging its group or scoring it raises
  \<open>TypeError\<close>, and the error leaves \<open>deduplicate_and_score\<close>: the run returns no
  story at all.
\<close>

theorem null_score_aborts_run:
  assumes "s \<in> set S" and "match_score s = Some PyNone"
  shows "deduplicate_and_score E S = Inl TypeError"
proof -
  let ?cs = "clean_stories (sort_key id_key S)"
  let ?groups = "find_duplicates E ?cs"
  note fd = find_duplicates_props [of E ?cs]
  have rng: "\<forall>g\<in>set ?groups. 1 < length g \<and> (\<forall>i\<in>set g. i < length ?cs)"
    using fd by auto
  have ne: "S \<noteq> []" using assms(1) by auto
  have "clean_story s \<in> set ?cs" using assms(1) by (simp add: clean_stories_def)
  then obtain k where k: "k < length ?cs" "?cs ! k = clean_story s"
    by (auto simp: in_set_conv_nth)
  have null: "match_score (?cs ! k) = Some PyNone"
    using k(2) assms(2) by (simp add: clean_story_fields)
  have "merge_duplicates E ?cs ?groups = Inl TypeError \<or>
        (\<exists>merged. merge_duplicates E ?cs ?groups = Inr merged \<and>
           calculate_final_scores merged = Inl TypeError)"
  proof (cases "merge_groups E ?cs ?groups [] {}")
    case (Inl e)
    then have "e = TypeError" using rng by (intro merge_groups_error [OF Inl]) simp
    with Inl show ?thesis by (simp add: merge_duplicates_def)
  next
    case (Inr r)
    obtain ms idx where r: "r = (ms, idx)" by (cases r)
    from merge_groups_counts [OF Inr [unfolded r]] rng
    have idx: "idx = set (concat ?groups)" by auto
    have "k \<notin> idx"
    proof
      assume "k \<in> idx"
      then obtain g where g: "g \<in> set ?groups" "k \<in> set g" using idx by auto
      from merge_groups_each_merged [OF Inr rng g(1)] obtain m where
        "merge_story_group E (map ((!) ?cs) g) = Inr m" by blast
      moreover have "merge_story_group E (map ((!) ?cs) g) = Inl TypeError"
        using g(2) null by (intro merge_story_group_raises [of "?cs ! k"]) simp_all
      ultimately show False by simp
    qed
    with k(1) have "?cs ! k \<in> set (map (\<lambda>i. ?cs ! i) (filter (\<lambda>i. i \<notin> idx) [0..<length ?cs]))"
      by auto
    moreover define merged where "merged = sort_key (original_index ?cs)
        (ms @ map (\<lambda>i. ?cs ! i) (filter (\<lambda>i. i \<notin> idx) [0..<length ?cs]))"
    ultimately have mem: "?cs ! k \<in> set merged" by simp
    have md: "merge_duplicates E ?cs ?groups = Inr merged"
      using Inr r by (simp add: merge_duplicates_def merged_def)
    have "get_score (?cs ! k) = PyNone" using null by (simp add: get_score_def)
    with mem have "calculate_final_scores merged = Inl TypeError"
      by (rule final_scores_raises)
    with md show ?thesis by blast
  qed
  with ne show ?thesis
    by (auto simp: deduplicate_and_score_def Let_def)
qed

theorem null_score_aborts_run_witness:
  "story_B_null \<in> set [story_A, story_B_null, story_C] \<and>
   match_score story_B_null = Some PyNone \<and>
   deduplicate_and_score scan_engine [story_A, story_B_null, story_C] = Inl TypeError"
proof -
  have m: "story_B_null \<in> set [story_A, story_B_null, story_C]" by simp
  have n: "match_score story_B_null = Some PyNone"
    by (simp add: story_B_null_def candidate_def)
  show ?thesis using m n null_score_aborts_run [OF m n, of scan_engine] by simp
qed

text \<open>
  C8 as stated fails: \<open>story_A\<close> and \<open>story_B_null\<close> form the one duplicate group, merging
  it raises \<open>TypeError\<close>, and the whole run ends with that error, although \<open>story_C\<close>
  alone is processed without one. The claim asks for a returned list holding the two
  members unmerged and \<open>story_C\<close> scored.
\<close>

theorem group_failure_not_contained_counterexample:
  "find_duplicates scan_engine (clean_stories [story_A, story_B_null, story_C]) = [[0, 1]] \<and>
   merge_story_group scan_engine [clean_story story_A, clean_story story_B_null] = Inl TypeError \<and>
   \<not> isl (deduplicate_and_score scan_engine [story_C]) \<and>
   deduplicate_and_score scan_engine [story_A, story_B_null, story_C] = Inl TypeError"
  by code_simp

section \<open>Properties of the consistency checker\<close>








lemma output_hash_order_any_injective_digest:
  assumes "inj (digest ck)"
  shows "generate_output_hash ck [story_D1, story_D2] \<noteq> generate_output_hash ck [story_D2, story_D1]"
proof -
  have "map story_data_of (sort_key id_key [story_D1, story_D2]) \<noteq>
        map story_data_of (sort_key id_key [story_D2, story_D1])"
    by (simp add: story_D1_def story_D2_def candidate_def id_key_def get_str_def story_data_of_def)
  with assms show ?thesis
    by (auto simp: generate_output_hash_def dest: injD)
qed

text \<open>
  C6. After \<open>cache_output\<close> has stored an output under an input hash, checking the same
  output under the same hash reports it consistent with score 1.
\<close>

theorem cache_then_check_consistent:
  "is_consistent (check_consistency (cache_output ck input_hash output_stories meta now)
                    input_hash output_stories) \<and>
   consistency_score (check_consistency (cache_output ck input_hash output_stories meta now)
                    input_hash output_stories) = 1"
  by (simp add: check_consistency_def cache_output_def generate_output_hash_def Let_def)

theorem cache_then_check_consistent_witness:
  "is_consistent (check_consistency
      (cache_output fresh_checker ''h1'' [story_A, story_B] None ''2024-01-01T00:00:00'')
      ''h1'' [story_A, story_B]) \<and>
   consistency_score (check_consistency
      (cache_output fresh_checker ''h1'' [story_A, story_B] None ''2024-01-01T00:00:00'')
      ''h1'' [story_A, story_B]) = 1"
  using cache_then_check_consistent
    [of fresh_checker "''h1''" "[story_A, story_B]" None "''2024-01-01T00:00:00''"]
  by simp

text \<open>
  C7. For an input hash without a cache entry, \<open>check_consistency\<close> reports the output
  consistent with score 1.
\<close>

theorem first_run_consistent:
  assumes "cache ck input_hash = None"
  shows "is_consistent (check_consistency ck input_hash output_stories) \<and>
         consistency_score (check_consistency ck input_hash output_stories) = 1"
  using assms by (simp add: check_consistency_def)

theorem first_run_consistent_witness:
  "cache fresh_checker ''h1'' = None \<and>
   is_consistent (check_consistency fresh_checker ''h1'' [story_A, story_B]) \<and>
   consistency_score (check_consistency fresh_checker ''h1'' [story_A, story_B]) = 1"
proof -
  have c: "cache fresh_checker ''h1'' = None" by (simp add: fresh_checker_def)
  show ?thesis using c first_run_consistent [OF c, of "[story_A, story_B]"] by simp
qed

section \<open>Properties of the vector processor\<close>

lemma map_filter_no_embedding:
  assumes "\<forall>c\<in>set chunks. \<not> has_embedding c"
  shows "List.map_filter
           (\<lambda>c. case embedding c of None \<Rightarrow> None
                 | Some e \<Rightarrow> if e \<noteq> [] then Some (f e, c) else None) chunks = []"
  using assms
  by (induction chunks) (auto simp: List.map_filter_simps has_embedding_def split: option.splits)

text \<open>
  C9 (amended). When no chunk carries an embedding, \<open>find_similar_chunks\<close> ranks
  nothing: without an embedding model, or when the embedding call raises, it returns the
  first K chunks in pool order; otherwise every chunk is skipped and it returns the empty
  list, and so does \<open>get_context_for_extraction\<close>.
\<close>

theorem no_embeddings_no_ranking:
  assumes "\<forall>c\<in>set chunks. \<not> has_embedding c"
  shows "find_similar_chunks vp query chunks top_k =
           (if embedding_model vp = None \<or> in_event_loop vp then take top_k chunks else []) \<and>
         (embedding_model vp \<noteq> None \<and> \<not> in_event_loop vp \<longrightarrow>
            get_context_for_extraction vp query chunks top_k = [])"
proof -
  have f: "find_similar_chunks vp query chunks top_k =
           (if embedding_model vp = None \<or> in_event_loop vp then take top_k chunks else [])"
  proof (cases "embedding_model vp")
    case None
    then show ?thesis by (simp add: find_similar_chunks_def)
  next
    case (Some model)
    then show ?thesis
      using map_filter_no_embedding
          [OF assms, of "cosine_similarity (generate_embedding model query)"]
      by (simp add: find_similar_chunks_def Let_def)
  qed
  then show ?thesis by (simp add: get_context_for_extraction_def Let_def)
qed

theorem no_embeddings_no_ranking_witness:
  "\<not> has_embedding chunk_0 \<and> \<not> has_embedding chunk_1 \<and>
   find_similar_chunks offline_processor ''approve'' [chunk_0, chunk_1] 1 = [chunk_0] \<and>
   find_similar_chunks online_processor ''approve'' [chunk_0, chunk_1] 1 = [] \<and>
   get_context_for_extraction online_processor ''approve'' [chunk_0, chunk_1] 1 = []"
proof -
  have h: "\<forall>c\<in>set [chunk_0, chunk_1]. \<not> has_embedding c"
    by (simp add: has_embedding_def chunk_0_def chunk_1_def)
  show ?thesis
    using h no_embeddings_no_ranking [OF h, of offline_processor "''approve''" 1]
      no_embeddings_no_ranking [OF h, of online_processor "''approve''" 1]
    by (simp add: offline_processor_def online_processor_def)
qed

text \<open>
  C9 as stated fails: for the query \<open>approve\<close> the ranking by word overlap puts
  \<open>chunk_1\<close> first, while the processor returns \<open>chunk_0\<close> without a model and nothing
  with one.
\<close>

theorem overlap_ranking_absent_counterexample:
  "embedding chunk_0 = None \<and> embedding chunk_1 = None \<and>
   spec_overlap_top_k ''approve'' [chunk_0, chunk_1] 1 = [chunk_1] \<and>
   find_similar_chunks offline_processor ''approve'' [chunk_0, chunk_1] 1 = [chunk_0] \<and>
   find_similar_chunks online_processor ''approve'' [chunk_0, chunk_1] 1 = [] \<and>
   get_context_for_extraction offline_processor ''approve'' [chunk_0, chunk_1] 1 = [chunk_0, chunk_1] \<and>
   get_context_for_extraction online_processor ''approve'' [chunk_0, chunk_1] 1 = []"
proof -
  have e: "embedding chunk_0 = None" "embedding chunk_1 = None"
    by (simp_all add: chunk_0_def chunk_1_def)
  have ne: "chunk_1 \<noteq> chunk_0" by (simp add: chunk_0_def chunk_1_def)
  have spec: "spec_overlap_top_k ''approve'' [chunk_0, chunk_1] 1 = [chunk_1]"
    by code_simp
  have off: "find_similar_chunks offline_processor ''approve'' [chunk_0, chunk_1] 1 = [chunk_0]"
    by (simp add: find_similar_chunks_def offline_processor_def)
  have on: "find_similar_chunks online_processor ''approve'' [chunk_0, chunk_1] 1 = []"
    by (simp add: find_similar_chunks_def online_processor_def List.map_filter_simps e)
  have r: "[0 .. 1 :: int] = [0, 1]" by (simp add: upto.simps)
  have f: "chunk_filename chunk_0 = Some ''a.txt''" "chunk_filename chunk_1 = Some ''a.txt''"
    "chunk_index chunk_0 = Some 0"
    by (simp_all add: chunk_0_def chunk_1_def)
  have ctx_off: "get_context_for_extraction offline_processor ''approve'' [chunk_0, chunk_1] 1 =
      [chunk_0, chunk_1]"
    using ne off by (simp add: get_context_for_extraction_def f get_str_def r)
  have ctx_on: "get_context_for_extraction online_processor ''approve'' [chunk_0, chunk_1] 1 = []"
    using on by (simp add: get_context_for_extraction_def)
  from e spec off on ctx_off ctx_on show ?thesis by simp
qed

end
